theory Spec2Isabelle
  imports Main "HOL-Library.Word"
begin

unbundle bit_operations_syntax

section \<open>Trust lines of the ledger: data\<close>

text \<open>
  The development follows \<^verbatim>\<open>src/ledger/TrustFrame.cpp\<close>. The XDR types it uses are
  declared elsewhere; they are written here as the source uses them: an account
  identifier is a \<^verbatim>\<open>uint256\<close>, a currency code is four opaque bytes, a currency is a
  union of the native currency and an alphanumeric one with its issuer, and a trust line
  entry holds the holder, the currency, \<^verbatim>\<open>int64\<close> limit and balance and \<^verbatim>\<open>uint32\<close>
  flags. Signed 64-bit arithmetic is two's complement: \<open>+\<close> on \<open>64 word\<close> wraps and
  \<open><s\<close>, \<open>\<le>s\<close> compare the signed values.
\<close>

type_synonym AccountID = "256 word"
type_synonym CurrencyCode = "32 word"
type_synonym int64 = "64 word"
type_synonym uint32 = "32 word"

record AlphaNum =
  currencyCode :: CurrencyCode
  issuer :: AccountID

datatype Currency = CURRENCY_TYPE_NATIVE | CURRENCY_TYPE_ALPHANUM AlphaNum

record TrustLineEntry =
  accountID :: AccountID
  currency :: Currency
  limit :: int64
  balance :: int64
  flags :: uint32

text \<open>
  A frame is the entry and the mark of the issuer's own line. The cached key of the
  base class (\<^verbatim>\<open>mKey\<close>, \<^verbatim>\<open>mKeyCalculated\<close>) is not part of the frame here: the key is
  computed from the entry whenever it is asked for.
\<close>

record TrustFrame =
  mTrustLine :: TrustLineEntry
  mIsIssuer :: bool

record LedgerKey =
  key_accountID :: AccountID
  key_currency :: Currency

text \<open>
  What the source raises: the two \<^verbatim>\<open>std::runtime_error\<close>s of the file, a failed
  \<^verbatim>\<open>assert\<close>, the exception of an XDR union read through the wrong arm, and an
  error of the SQL session (a violated constraint of the table).
\<close>

text \<open>
  An \<^verbatim>\<open>assert\<close> is taken as compiled in. An operation that raises is abandoned: the
  functions below return the error in place of the state.
\<close>

datatype error =
    IssuerOwnTrustline
  | CouldNotUpdateSQL
  | AssertionFailed
  | XdrWrongUnion
  | SqlError

definition INT64_MAX :: int64 where
  "INT64_MAX = 0x7FFFFFFFFFFFFFFF"

text \<open>
  Modelled from the spec: the constant \<^verbatim>\<open>AUTHORIZED_FLAG\<close> is declared in the XDR
  definitions, which are not among the sources; the schema says that bit 0 of the flags
  is the authorization.
\<close>

definition AUTHORIZED_FLAG :: uint32 where
  "AUTHORIZED_FLAG = 1"

definition alphaNum :: "Currency \<Rightarrow> error + AlphaNum" where
  "alphaNum cur = (case cur of CURRENCY_TYPE_NATIVE \<Rightarrow> Inl XdrWrongUnion
                   | CURRENCY_TYPE_ALPHANUM an \<Rightarrow> Inr an)"

section \<open>The entity\<close>

definition isAuthorized :: "TrustFrame \<Rightarrow> bool" where
  "isAuthorized f = (flags (mTrustLine f) AND AUTHORIZED_FLAG \<noteq> 0)"

definition setAuthorized :: "bool \<Rightarrow> TrustFrame \<Rightarrow> TrustFrame" where
  "setAuthorized authorized f =
     (if authorized
      then f\<lparr>mTrustLine := (mTrustLine f)\<lparr>flags := flags (mTrustLine f) OR AUTHORIZED_FLAG\<rparr>\<rparr>
      else f\<lparr>mTrustLine := (mTrustLine f)\<lparr>flags := flags (mTrustLine f) AND NOT AUTHORIZED_FLAG\<rparr>\<rparr>)"

text \<open>
  \<^verbatim>\<open>addBalance\<close> returns its boolean and the frame as it leaves it. The sum
  \<^verbatim>\<open>delta + mTrustLine.balance\<close> is the machine's: where it leaves the 64-bit range, which
  C++ leaves undefined, it wraps around.
\<close>

definition addBalance :: "int64 \<Rightarrow> TrustFrame \<Rightarrow> bool \<times> TrustFrame" where
  "addBalance delta f =
     (if mIsIssuer f then (True, f)
      else if delta = 0 then (True, f)
      else if \<not> isAuthorized f then (False, f)
      else if limit (mTrustLine f) <s delta + balance (mTrustLine f) then (False, f)
      else if delta + balance (mTrustLine f) <s 0 then (False, f)
      else (True, f\<lparr>mTrustLine := (mTrustLine f)\<lparr>balance := balance (mTrustLine f) + delta\<rparr>\<rparr>))"

definition isValid :: "TrustFrame \<Rightarrow> bool" where
  "isValid f =
     (let tl = mTrustLine f;
          res = (currency tl \<noteq> CURRENCY_TYPE_NATIVE);
          res = (res \<and> 0 \<le>s balance tl);
          res = (res \<and> balance tl \<le>s limit tl)
      in res)"

section \<open>The store\<close>

text \<open>
  The identifier and currency-code codecs (\<^verbatim>\<open>crypto/Base58\<close>, \<^verbatim>\<open>util/types\<close>) are not
  among the sources. The functions of the store take them as a parameter; the version
  byte \<^verbatim>\<open>VER_ACCOUNT_ID\<close>, the same at every call, is part of the parameter.
\<close>

record Codec =
  toBase58Check :: "AccountID \<Rightarrow> string"
  fromBase58Check256 :: "string \<Rightarrow> AccountID"
  currencyCodeToStr :: "CurrencyCode \<Rightarrow> string"
  strToCurrencyCode :: "string \<Rightarrow> CurrencyCode"

text \<open>
  A row of the table \<^verbatim>\<open>TrustLines\<close> of \<^verbatim>\<open>kSQLCreateStatement1\<close>: three strings, two
  \<^verbatim>\<open>BIGINT\<close>s and an \<^verbatim>\<open>INT\<close>, which holds the flags as the signed value of their 32
  bits (the cast \<^verbatim>\<open>(int)mTrustLine.flags\<close>). The database is the list of the rows, in
  the order of their insertion.
\<close>

record Row =
  col_accountID :: string
  col_issuer :: string
  col_AlphaNumCurrency :: string
  col_tlimit :: int64
  col_balance :: int64
  col_flags :: int

type_synonym Database = "Row list"

text \<open>
  Modelled from the spec: the SQL session (\<^verbatim>\<open>database/Database.h\<close> and the SOCI
  library) is not among the sources. The statements below are the ones the source sends,
  over the schema of \<^verbatim>\<open>kSQLCreateStatement1\<close>: the primary key is the triple of strings,
  \<^verbatim>\<open>tlimit\<close> and \<^verbatim>\<open>balance\<close> are checked to be non-negative and \<^verbatim>\<open>balance\<close> defaults
  to 0. A statement that violates a constraint raises; a mutating statement reports the
  number of rows it affected. The lengths of the \<^verbatim>\<open>VARCHAR\<close> columns are not modelled.
\<close>

definition whereKey :: "string \<Rightarrow> string \<Rightarrow> string \<Rightarrow> Row \<Rightarrow> bool" where
  "whereKey v1 v2 v3 r =
     (col_accountID r = v1 \<and> col_issuer r = v2 \<and> col_AlphaNumCurrency r = v3)"

definition sqlSelectKey :: "Database \<Rightarrow> string \<Rightarrow> string \<Rightarrow> string \<Rightarrow> Row list" where
  "sqlSelectKey db v1 v2 v3 = filter (whereKey v1 v2 v3) db"

definition sqlSelectAccount :: "Database \<Rightarrow> string \<Rightarrow> Row list" where
  "sqlSelectAccount db v1 = filter (\<lambda>r. col_accountID r = v1) db"

definition sqlSelectExists :: "Database \<Rightarrow> string \<Rightarrow> string \<Rightarrow> string \<Rightarrow> int" where
  "sqlSelectExists db v1 v2 v3 = (if sqlSelectKey db v1 v2 v3 = [] then 0 else 1)"

definition sqlDelete :: "Database \<Rightarrow> string \<Rightarrow> string \<Rightarrow> string \<Rightarrow> Database" where
  "sqlDelete db v1 v2 v3 = filter (\<lambda>r. \<not> whereKey v1 v2 v3 r) db"

definition sqlUpdate ::
  "Database \<Rightarrow> int64 \<Rightarrow> int64 \<Rightarrow> int \<Rightarrow> string \<Rightarrow> string \<Rightarrow> string \<Rightarrow> error + (Database \<times> nat)" where
  "sqlUpdate db b tlimit a v1 v2 v3 =
     (let n = length (sqlSelectKey db v1 v2 v3) in
      if n \<noteq> 0 \<and> \<not> (0 \<le>s tlimit \<and> 0 \<le>s b) then Inl SqlError
      else Inr (map (\<lambda>r. if whereKey v1 v2 v3 r
                           then r\<lparr>col_balance := b, col_tlimit := tlimit, col_flags := a\<rparr>
                           else r) db, n))"

definition sqlInsert ::
  "Database \<Rightarrow> string \<Rightarrow> string \<Rightarrow> string \<Rightarrow> int64 \<Rightarrow> int \<Rightarrow> error + (Database \<times> nat)" where
  "sqlInsert db v1 v2 v3 v4 v5 =
     (if sqlSelectKey db v1 v2 v3 \<noteq> [] then Inl SqlError
      else if \<not> 0 \<le>s v4 then Inl SqlError
      else Inr (db @ [\<lparr>col_accountID = v1, col_issuer = v2, col_AlphaNumCurrency = v3,
                        col_tlimit = v4, col_balance = 0, col_flags = v5\<rparr>], 1))"

text \<open>
  Modelled from the spec: the change journal (\<^verbatim>\<open>LedgerDelta\<close>) is not among the sources.
  It is notified of every entity added or modified and of every key deleted; here it is
  the list of these notifications.
\<close>

datatype DeltaEntry = AddEntry TrustFrame | ModEntry TrustFrame | DeleteEntry LedgerKey

type_synonym LedgerDelta = "DeltaEntry list"

definition addEntry :: "TrustFrame \<Rightarrow> LedgerDelta \<Rightarrow> LedgerDelta" where
  "addEntry f delta = delta @ [AddEntry f]"

definition modEntry :: "TrustFrame \<Rightarrow> LedgerDelta \<Rightarrow> LedgerDelta" where
  "modEntry f delta = delta @ [ModEntry f]"

definition deleteEntry :: "LedgerKey \<Rightarrow> LedgerDelta \<Rightarrow> LedgerDelta" where
  "deleteEntry key delta = delta @ [DeleteEntry key]"

text \<open>
  Modelled from the spec: \<^verbatim>\<open>getKey\<close> belongs to the base class \<^verbatim>\<open>EntryFrame\<close>, which is
  not among the sources. The key of a trust line is its holder and its currency (the
  currency holds the issuer).
\<close>

definition getKey :: "TrustFrame \<Rightarrow> LedgerKey" where
  "getKey f = \<lparr>key_accountID = accountID (mTrustLine f), key_currency = currency (mTrustLine f)\<rparr>"

definition getKeyFields :: "Codec \<Rightarrow> LedgerKey \<Rightarrow> error + (string \<times> string \<times> string)" where
  "getKeyFields c key =
     (let base58AccountID = toBase58Check c (key_accountID key) in
      case alphaNum (key_currency key) of
        Inl e \<Rightarrow> Inl e
      | Inr an \<Rightarrow>
          (let base58Issuer = toBase58Check c (issuer an) in
           if base58AccountID = base58Issuer then Inl IssuerOwnTrustline
           else Inr (base58AccountID, base58Issuer, currencyCodeToStr c (currencyCode an))))"

definition exists :: "Codec \<Rightarrow> Database \<Rightarrow> LedgerKey \<Rightarrow> error + bool" where
  "exists c db key =
     (case getKeyFields c key of
        Inl e \<Rightarrow> Inl e
      | Inr (b58AccountID, b58Issuer, currencyStr) \<Rightarrow>
          Inr (sqlSelectExists db b58AccountID b58Issuer currencyStr \<noteq> 0))"

definition storeDelete ::
  "Codec \<Rightarrow> LedgerKey \<Rightarrow> LedgerDelta \<Rightarrow> Database \<Rightarrow> error + (LedgerDelta \<times> Database)" where
  "storeDelete c key delta db =
     (case getKeyFields c key of
        Inl e \<Rightarrow> Inl e
      | Inr (b58AccountID, b58Issuer, currencyStr) \<Rightarrow>
          Inr (deleteEntry key delta, sqlDelete db b58AccountID b58Issuer currencyStr))"

definition storeChange ::
  "Codec \<Rightarrow> TrustFrame \<Rightarrow> LedgerDelta \<Rightarrow> Database \<Rightarrow> error + (LedgerDelta \<times> Database)" where
  "storeChange c f delta db =
     (if \<not> isValid f then Inl AssertionFailed
      else if mIsIssuer f then Inr (delta, db)
      else case getKeyFields c (getKey f) of
        Inl e \<Rightarrow> Inl e
      | Inr (b58AccountID, b58Issuer, currencyStr) \<Rightarrow>
          (case sqlUpdate db (balance (mTrustLine f)) (limit (mTrustLine f))
                  (sint (flags (mTrustLine f))) b58AccountID b58Issuer currencyStr of
             Inl e \<Rightarrow> Inl e
           | Inr (db', affected_rows) \<Rightarrow>
               if affected_rows \<noteq> 1 then Inl CouldNotUpdateSQL
               else Inr (modEntry f delta, db')))"

definition storeAdd ::
  "Codec \<Rightarrow> TrustFrame \<Rightarrow> LedgerDelta \<Rightarrow> Database \<Rightarrow> error + (LedgerDelta \<times> Database)" where
  "storeAdd c f delta db =
     (if \<not> isValid f then Inl AssertionFailed
      else if mIsIssuer f then Inr (delta, db)
      else case getKeyFields c (getKey f) of
        Inl e \<Rightarrow> Inl e
      | Inr (b58AccountID, b58Issuer, currencyStr) \<Rightarrow>
          (case sqlInsert db b58AccountID b58Issuer currencyStr (limit (mTrustLine f))
                  (sint (flags (mTrustLine f))) of
             Inl e \<Rightarrow> Inl e
           | Inr (db', affected_rows) \<Rightarrow>
               if affected_rows \<noteq> 1 then Inl CouldNotUpdateSQL
               else Inr (addEntry f delta, db')))"

definition setAsIssuer :: "Currency \<Rightarrow> TrustFrame \<Rightarrow> error + TrustFrame" where
  "setAsIssuer cur f =
     (case alphaNum cur of
        Inl e \<Rightarrow> Inl e
      | Inr an \<Rightarrow>
          Inr \<lparr>mTrustLine = \<lparr>accountID = issuer an, currency = cur, limit = INT64_MAX,
                              balance = INT64_MAX,
                              flags = flags (mTrustLine f) OR AUTHORIZED_FLAG\<rparr>,
               mIsIssuer = True\<rparr>)"

text \<open>
  The local \<^verbatim>\<open>curTrustLine\<close> of \<^verbatim>\<open>loadLines\<close> once a row has been fetched into it: a
  frame built by the default constructor, every field of its entry overwritten from the
  row.
\<close>

definition curTrustLine :: "Codec \<Rightarrow> Row \<Rightarrow> TrustFrame" where
  "curTrustLine c r =
     \<lparr>mTrustLine =
        \<lparr>accountID = fromBase58Check256 c (col_accountID r),
         currency = CURRENCY_TYPE_ALPHANUM
           \<lparr>currencyCode = strToCurrencyCode c (col_AlphaNumCurrency r),
            issuer = fromBase58Check256 c (col_issuer r)\<rparr>,
         limit = col_tlimit r,
         balance = col_balance r,
         flags = word_of_int (col_flags r)\<rparr>,
      mIsIssuer = False\<rparr>"

text \<open>
  \<^verbatim>\<open>loadLines\<close> over the rows a prepared statement selects: each row is decoded,
  asserted valid, and handed to the processor, which updates what its closure captured
  (the state \<open>s\<close>). A failed assertion ends the run.
\<close>

fun loadLines :: "Codec \<Rightarrow> Row list \<Rightarrow> (TrustFrame \<Rightarrow> 's \<Rightarrow> 's) \<Rightarrow> 's \<Rightarrow> error + 's" where
  "loadLines c [] trustProcessor s = Inr s"
| "loadLines c (r # rs) trustProcessor s =
     (if \<not> isValid (curTrustLine c r) then Inl AssertionFailed
      else loadLines c rs trustProcessor (trustProcessor (curTrustLine c r) s))"

text \<open>
  \<^verbatim>\<open>loadTrustLine\<close> returns its boolean and \<^verbatim>\<open>retLine\<close> as it leaves it. The processor
  assigns the frame to \<^verbatim>\<open>retLine\<close> (the assignment operator copies the entry and the
  issuer mark) and sets \<^verbatim>\<open>res\<close>.
\<close>

definition loadTrustLine ::
  "Codec \<Rightarrow> AccountID \<Rightarrow> Currency \<Rightarrow> TrustFrame \<Rightarrow> Database \<Rightarrow> error + (bool \<times> TrustFrame)" where
  "loadTrustLine c accID cur retLine db =
     (case alphaNum cur of
        Inl e \<Rightarrow> Inl e
      | Inr an \<Rightarrow>
          if accID = issuer an
          then (case setAsIssuer cur retLine of
                  Inl e \<Rightarrow> Inl e
                | Inr retLine' \<Rightarrow> Inr (True, retLine'))
          else
            (let accStr = toBase58Check c accID;
                 currencyStr = currencyCodeToStr c (currencyCode an);
                 issuerStr = toBase58Check c (issuer an)
             in case loadLines c (sqlSelectKey db accStr issuerStr currencyStr)
                       (\<lambda>trust (retLine, res). (trust, True)) (retLine, False) of
                  Inl e \<Rightarrow> Inl e
                | Inr (retLine', res) \<Rightarrow> Inr (res, retLine')))"

text \<open>
  The second \<^verbatim>\<open>loadLines\<close>, all the lines of a holder: the processor pushes a copy of
  the frame onto \<^verbatim>\<open>retLines\<close>; the copy constructor copies the entry and clears the
  issuer mark.
\<close>

definition loadLinesAccount ::
  "Codec \<Rightarrow> AccountID \<Rightarrow> TrustFrame list \<Rightarrow> Database \<Rightarrow> error + TrustFrame list" where
  "loadLinesAccount c accID retLines db =
     (let accStr = toBase58Check c accID
      in loadLines c (sqlSelectAccount db accStr)
           (\<lambda>cur retLines. retLines @ [\<lparr>mTrustLine = mTrustLine cur, mIsIssuer = False\<rparr>])
           retLines)"

section \<open>Example values\<close>

text \<open>
  A codec for the examples: an identifier or a code \<open>n\<close> is written as \<open>n\<close> letters, and
  read back as the length of the string.
\<close>

definition tallyCodec :: Codec where
  "tallyCodec =
     \<lparr>toBase58Check = (\<lambda>a. replicate (unat a) CHR ''g''),
      fromBase58Check256 = (\<lambda>s. of_nat (length s)),
      currencyCodeToStr = (\<lambda>a. replicate (unat a) CHR ''U''),
      strToCurrencyCode = (\<lambda>s. of_nat (length s))\<rparr>"

text \<open>
  The line of the spec's example: holder 1, issuer 2, limit 1000, authorized, with a
  balance of 500.
\<close>

definition lineUSD :: TrustFrame where
  "lineUSD =
     \<lparr>mTrustLine = \<lparr>accountID = 1,
                     currency = CURRENCY_TYPE_ALPHANUM \<lparr>currencyCode = 3, issuer = 2\<rparr>,
                     limit = 1000, balance = 500, flags = 1\<rparr>,
      mIsIssuer = False\<rparr>"

text \<open>The row that holds this line once it has been added, and the issuer's own line.\<close>

definition rowUSD :: Row where
  "rowUSD = \<lparr>col_accountID = ''g'', col_issuer = ''gg'', col_AlphaNumCurrency = ''UUU'',
              col_tlimit = 1000, col_balance = 0, col_flags = 1\<rparr>"

definition issuerUSD :: TrustFrame where
  "issuerUSD =
     \<lparr>mTrustLine = \<lparr>accountID = 2,
                     currency = CURRENCY_TYPE_ALPHANUM \<lparr>currencyCode = 3, issuer = 2\<rparr>,
                     limit = INT64_MAX, balance = INT64_MAX, flags = 1\<rparr>,
      mIsIssuer = True\<rparr>"

section \<open>Properties of the entity\<close>

lemma AUTHORIZED_FLAG_nonzero: "AUTHORIZED_FLAG \<noteq> 0"
  by (simp add: AUTHORIZED_FLAG_def)

lemma flag_set_reads: "(w OR AUTHORIZED_FLAG) AND AUTHORIZED_FLAG \<noteq> 0"
  by (simp add: AUTHORIZED_FLAG_def)

lemma flag_cleared_reads: "(w AND NOT AUTHORIZED_FLAG) AND AUTHORIZED_FLAG = 0"
  by (simp add: bit_eq_iff bit_simps)

lemma flag_set_others: "(w OR AUTHORIZED_FLAG) AND NOT AUTHORIZED_FLAG = w AND NOT AUTHORIZED_FLAG"
  by (simp add: bit_eq_iff bit_simps) blast

lemma flag_cleared_others:
  "(w AND NOT AUTHORIZED_FLAG) AND NOT AUTHORIZED_FLAG = w AND NOT AUTHORIZED_FLAG"
  by (simp add: bit_eq_iff bit_simps)

lemma sint_add_exact:
  fixes a b :: int64
  assumes "- (2 ^ 63) \<le> sint a + sint b" "sint a + sint b < 2 ^ 63"
  shows "sint (a + b) = sint a + sint b"
  using assms by (simp add: sint_word_ariths signed_take_bit_int_eq_self)

lemma sint_add_over:
  fixes a b :: int64
  assumes "2 ^ 63 \<le> sint a + sint b"
  shows "sint (a + b) < 0"
proof -
  have "sint a < 2 ^ 63" "sint b < 2 ^ 63"
    using sint_lt [of a] sint_lt [of b] by simp_all
  moreover have "sint (a + b) \<le> sint a + sint b - 2 ^ 64"
    using signed_take_bit_int_less_eq [of 63 "sint a + sint b"] assms
    by (simp add: sint_word_ariths)
  ultimately show ?thesis by simp
qed

lemma sint_INT64_MAX: "sint INT64_MAX = 2 ^ 63 - 1"
  by (simp add: INT64_MAX_def)



lemma isValid_bounds:
  "isValid f \<longleftrightarrow> currency (mTrustLine f) \<noteq> CURRENCY_TYPE_NATIVE
     \<and> 0 \<le> sint (balance (mTrustLine f))
     \<and> sint (balance (mTrustLine f)) \<le> sint (limit (mTrustLine f))"
  by (simp add: isValid_def Let_def word_sle_eq)

lemma word_sle_INT64_MAX: "(w :: int64) \<le>s INT64_MAX"
  using sint_lt [of w] by (simp add: word_sle_eq sint_INT64_MAX)

text \<open>
  C3. For a line that is not the issuer's, with \<open>0 \<le> balance \<le> limit\<close>, and every 64-bit
  \<open>delta\<close>: \<^verbatim>\<open>addBalance(delta)\<close> returns false exactly when the line is not authorized
  and \<open>delta\<close> is not 0, or the exact sum \<open>balance + delta\<close> exceeds the limit, or the exact
  sum is negative. The sums on the right are sums of integers; the code's sum wraps around,
  and a sum beyond the 64-bit range comes out negative and is refused.
\<close>

theorem addBalance_fails_iff:
  assumes "\<not> mIsIssuer f"
    and "0 \<le> sint (balance (mTrustLine f))"
    and "sint (balance (mTrustLine f)) \<le> sint (limit (mTrustLine f))"
  shows "fst (addBalance delta f) = False \<longleftrightarrow>
           (\<not> isAuthorized f \<and> delta \<noteq> 0)
           \<or> sint (limit (mTrustLine f)) < sint (balance (mTrustLine f)) + sint delta
           \<or> sint (balance (mTrustLine f)) + sint delta < 0"
proof -
  let ?b = "balance (mTrustLine f)" and ?l = "limit (mTrustLine f)"
  have lo: "- (2 ^ 63) \<le> sint delta + sint ?b"
    using sint_ge [of delta] assms(2) by simp
  have lmax: "sint ?l < 2 ^ 63"
    using sint_lt [of ?l] by simp
  show ?thesis
  proof (cases "sint delta + sint ?b < 2 ^ 63")
    case True
    with lo have "sint (delta + ?b) = sint delta + sint ?b"
      by (simp add: sint_add_exact)
    with assms show ?thesis
      by (auto simp: addBalance_def word_sless_alt)
  next
    case False
    then have neg: "sint (delta + ?b) < 0"
      by (intro sint_add_over) simp
    have "delta \<noteq> 0"
      using False assms lmax by auto
    with assms neg False lmax show ?thesis
      by (auto simp: addBalance_def word_sless_alt)
  qed
qed

theorem addBalance_fails_iff_witness:
  "\<not> mIsIssuer lineUSD
   \<and> 0 \<le> sint (balance (mTrustLine lineUSD))
   \<and> sint (balance (mTrustLine lineUSD)) \<le> sint (limit (mTrustLine lineUSD))
   \<and> fst (addBalance 600 lineUSD) = False
   \<and> fst (addBalance 500 lineUSD) = True
   \<and> fst (addBalance INT64_MAX lineUSD) = False"
  using addBalance_fails_iff [of lineUSD 600] addBalance_fails_iff [of lineUSD 500]
    addBalance_fails_iff [of lineUSD INT64_MAX]
  by (simp add: lineUSD_def isAuthorized_def AUTHORIZED_FLAG_def sint_INT64_MAX)

text \<open>
  C4. For a line that is not the issuer's, with \<open>0 \<le> balance \<le> limit\<close>, and every 64-bit
  \<open>delta\<close>: after \<^verbatim>\<open>addBalance(delta)\<close> the bounds \<open>0 \<le> balance \<le> limit\<close> still hold (and
  the frame is valid exactly if it was), and when the call returns false the frame is the
  one it was given, in every field.
\<close>

theorem addBalance_keeps_bounds:
  assumes "\<not> mIsIssuer f"
    and "0 \<le> sint (balance (mTrustLine f))"
    and "sint (balance (mTrustLine f)) \<le> sint (limit (mTrustLine f))"
  shows "0 \<le> sint (balance (mTrustLine (snd (addBalance delta f))))
         \<and> sint (balance (mTrustLine (snd (addBalance delta f))))
             \<le> sint (limit (mTrustLine (snd (addBalance delta f))))
         \<and> isValid (snd (addBalance delta f)) = isValid f
         \<and> (fst (addBalance delta f) = False \<longrightarrow> snd (addBalance delta f) = f)"
  using assms
  by (auto simp: addBalance_def isValid_bounds word_sless_alt add.commute)

theorem addBalance_keeps_bounds_witness:
  "\<not> mIsIssuer lineUSD
   \<and> 0 \<le> sint (balance (mTrustLine lineUSD))
   \<and> sint (balance (mTrustLine lineUSD)) \<le> sint (limit (mTrustLine lineUSD))
   \<and> sint (balance (mTrustLine (snd (addBalance 600 lineUSD))))
        \<le> sint (limit (mTrustLine (snd (addBalance 600 lineUSD))))
   \<and> fst (addBalance 600 lineUSD) = False
   \<and> snd (addBalance 600 lineUSD) = lineUSD"
proof -
  have "fst (addBalance 600 lineUSD) = False"
    by (simp add: addBalance_def lineUSD_def isAuthorized_def AUTHORIZED_FLAG_def word_sless_alt)
  with addBalance_keeps_bounds [of lineUSD 600] show ?thesis
    by (simp add: lineUSD_def)
qed

text \<open>
  C8. For every frame, the issuer's included, authorized or not, at its limit or not,
  \<^verbatim>\<open>addBalance(0)\<close> returns true and leaves the frame as it was.
\<close>

theorem addBalance_zero: "addBalance 0 f = (True, f)"
  by (simp add: addBalance_def)

theorem addBalance_zero_witness:
  "addBalance 0 (setAuthorized False lineUSD) = (True, setAuthorized False lineUSD)"
  by (rule addBalance_zero)

text \<open>
  C10. For every frame and boolean \<open>b\<close>, \<^verbatim>\<open>setAuthorized(b)\<close> changes the authorized bit of
  the flags and nothing else: afterwards \<^verbatim>\<open>isAuthorized()\<close> is \<open>b\<close>, the flags outside
  \<^verbatim>\<open>AUTHORIZED_FLAG\<close> are what they were, and so are balance, limit, currency, holder
  and the issuer mark.
\<close>

theorem setAuthorized_frame:
  "isAuthorized (setAuthorized b f) = b
   \<and> flags (mTrustLine (setAuthorized b f)) AND NOT AUTHORIZED_FLAG
       = flags (mTrustLine f) AND NOT AUTHORIZED_FLAG
   \<and> balance (mTrustLine (setAuthorized b f)) = balance (mTrustLine f)
   \<and> limit (mTrustLine (setAuthorized b f)) = limit (mTrustLine f)
   \<and> currency (mTrustLine (setAuthorized b f)) = currency (mTrustLine f)
   \<and> accountID (mTrustLine (setAuthorized b f)) = accountID (mTrustLine f)
   \<and> mIsIssuer (setAuthorized b f) = mIsIssuer f"
  by (cases b)
    (simp_all add: setAuthorized_def isAuthorized_def AUTHORIZED_FLAG_nonzero flag_set_reads
      flag_cleared_reads flag_set_others flag_cleared_others)

theorem setAuthorized_frame_witness:
  "isAuthorized (setAuthorized False lineUSD) = False
   \<and> balance (mTrustLine (setAuthorized False lineUSD)) = 500"
  using setAuthorized_frame [of False lineUSD]
  by (simp add: lineUSD_def)

section \<open>Properties of the store\<close>

lemma replicate_2: "replicate 2 x = [x, x]"
  by (simp add: numeral_2_eq_2)

lemma replicate_3: "replicate 3 x = [x, x, x]"
  by (simp add: numeral_3_eq_3)

lemma tally_inj: "inj (toBase58Check tallyCodec)"
proof (rule injI)
  fix a b :: AccountID
  assume "toBase58Check tallyCodec a = toBase58Check tallyCodec b"
  then have "length (replicate (unat a) CHR ''g'') = length (replicate (unat b) CHR ''g'')"
    by (simp add: tallyCodec_def)
  then show "a = b"
    by (simp add: word_eq_iff_unsigned [where ?'a = nat])
qed

lemma getKeyFields_holder:
  assumes "key_currency key = CURRENCY_TYPE_ALPHANUM an" "key_accountID key \<noteq> issuer an"
    "inj (toBase58Check c)"
  shows "getKeyFields c key =
           Inr (toBase58Check c (key_accountID key), toBase58Check c (issuer an),
                currencyCodeToStr c (currencyCode an))"
  using assms by (simp add: getKeyFields_def alphaNum_def inj_eq)

lemma getKeyFields_issuer:
  assumes "key_currency key = CURRENCY_TYPE_ALPHANUM an" "key_accountID key = issuer an"
  shows "getKeyFields c key = Inl IssuerOwnTrustline"
  using assms by (simp add: getKeyFields_def alphaNum_def)

lemma sqlDelete_absent:
  "sqlSelectKey db v1 v2 v3 = [] \<Longrightarrow> sqlDelete db v1 v2 v3 = db"
  by (simp add: sqlSelectKey_def sqlDelete_def filter_empty_conv)

lemma sqlInsert_Inr:
  assumes "sqlInsert db v1 v2 v3 v4 v5 = Inr (db', n)"
  shows "n = 1 \<and> sqlSelectKey db' v1 v2 v3 =
           [\<lparr>col_accountID = v1, col_issuer = v2, col_AlphaNumCurrency = v3,
             col_tlimit = v4, col_balance = 0, col_flags = v5\<rparr>]"
  using assms by (auto simp: sqlInsert_def sqlSelectKey_def whereKey_def split: if_splits)

lemma loadLines_Inr:
  "loadLines c rows p s = Inr s' \<Longrightarrow>
     (\<forall>r\<in>set rows. isValid (curTrustLine c r))
     \<and> s' = foldl (\<lambda>s r. p (curTrustLine c r) s) s rows"
  by (induction rows arbitrary: s) (auto split: if_splits)

lemma loadLines_Inl:
  "loadLines c rows p s = Inl e \<Longrightarrow>
     e = AssertionFailed \<and> (\<exists>r\<in>set rows. \<not> isValid (curTrustLine c r))"
  by (induction rows arbitrary: s) (auto split: if_splits)

lemma loadLines_invalid:
  "\<exists>r\<in>set rows. \<not> isValid (curTrustLine c r) \<Longrightarrow> loadLines c rows p s = Inl AssertionFailed"
  by (cases "loadLines c rows p s") (auto dest: loadLines_Inl loadLines_Inr)

lemma loadLines_cong_valid:
  "(\<And>f s. isValid f \<Longrightarrow> p f s = q f s) \<Longrightarrow> loadLines c rows p s = loadLines c rows q s"
  by (induction rows arbitrary: s) auto

lemma loadLines_invariant:
  assumes "loadLines c rows p s = Inr s'" and "P s"
    and "\<And>f s. isValid f \<Longrightarrow> P s \<Longrightarrow> P (p f s)"
  shows "P s'"
  using assms by (induction rows arbitrary: s) (auto split: if_splits)

lemma isValid_issuer_line:
  "setAsIssuer cur f = Inr r \<Longrightarrow> isValid r"
  by (auto simp: setAsIssuer_def alphaNum_def isValid_bounds sint_INT64_MAX
      split: Currency.splits)

lemma loadTrustLine_valid:
  assumes "loadTrustLine c a cur retLine db = Inr (True, r)"
  shows "isValid r"
proof (cases cur)
  case CURRENCY_TYPE_NATIVE
  with assms show ?thesis
    by (simp add: loadTrustLine_def alphaNum_def)
next
  case (CURRENCY_TYPE_ALPHANUM an)
  show ?thesis
  proof (cases "a = issuer an")
    case True
    with assms CURRENCY_TYPE_ALPHANUM show ?thesis
      by (auto simp: loadTrustLine_def alphaNum_def split: sum.splits dest: isValid_issuer_line)
  next
    case False
    let ?rows = "sqlSelectKey db (toBase58Check c a) (toBase58Check c (issuer an))
                   (currencyCodeToStr c (currencyCode an))"
    let ?p = "\<lambda>trust (retLine :: TrustFrame, res :: bool). (trust, True)"
    from assms False CURRENCY_TYPE_ALPHANUM
    have run: "loadLines c ?rows ?p (retLine, False) = Inr (r, True)"
      by (auto simp: loadTrustLine_def alphaNum_def Let_def split: sum.splits)
    have "(\<lambda>(x, res). res \<longrightarrow> isValid x) (r, True)"
      by (rule loadLines_invariant [OF run]) auto
    then show ?thesis by simp
  qed
qed

lemma loadLinesAccount_valid:
  assumes "loadLinesAccount c a retLines db = Inr fs" and "\<forall>f\<in>set retLines. isValid f"
  shows "\<forall>f\<in>set fs. isValid f"
proof -
  have "(\<lambda>fs. \<forall>f\<in>set fs. isValid f) fs"
    using assms(1) unfolding loadLinesAccount_def Let_def
    by (rule loadLines_invariant) (use assms(2) in \<open>auto simp: isValid_bounds\<close>)
  then show ?thesis .
qed

lemma storeAdd_lineUSD: "storeAdd tallyCodec lineUSD [] [] = Inr ([AddEntry lineUSD], [rowUSD])"
  by (simp add: lineUSD_def rowUSD_def isValid_bounds storeAdd_def getKeyFields_def getKey_def
      alphaNum_def sqlInsert_def sqlSelectKey_def addEntry_def word_sle_eq Let_def tallyCodec_def
      replicate_2 replicate_3)

lemma loadTrustLine_rowUSD:
  "loadTrustLine tallyCodec 1 (CURRENCY_TYPE_ALPHANUM \<lparr>currencyCode = 3, issuer = 2\<rparr>) retLine [rowUSD]
     = Inr (True, lineUSD\<lparr>mTrustLine := (mTrustLine lineUSD)\<lparr>balance := 0\<rparr>\<rparr>)"
  by (simp add: lineUSD_def rowUSD_def isValid_bounds loadTrustLine_def alphaNum_def
      sqlSelectKey_def whereKey_def curTrustLine_def Let_def tallyCodec_def replicate_2 replicate_3)

lemma isValid_rowUSD: "isValid (curTrustLine tallyCodec rowUSD)"
  by (simp add: curTrustLine_def rowUSD_def isValid_bounds)

lemma notValid_overdrawn:
  "\<not> isValid (curTrustLine tallyCodec (rowUSD\<lparr>col_balance := 2000\<rparr>))"
  by (simp add: curTrustLine_def rowUSD_def isValid_bounds)

lemma loadLinesAccount_rowUSD:
  "loadLinesAccount tallyCodec 1 [] [rowUSD]
     = Inr [lineUSD\<lparr>mTrustLine := (mTrustLine lineUSD)\<lparr>balance := 0\<rparr>\<rparr>]"
  by (simp add: loadLinesAccount_def sqlSelectAccount_def isValid_rowUSD Let_def)
     (simp add: curTrustLine_def rowUSD_def lineUSD_def tallyCodec_def replicate_2 replicate_3)

text \<open>
  C1, as the code has it. For a valid line \<open>f\<close> that is not the issuer's (holder and issuer
  differ, and the codec writes different accounts differently): when \<^verbatim>\<open>storeAdd\<close> of \<open>f\<close>
  succeeds, \<^verbatim>\<open>loadTrustLine\<close> on the holder and currency of \<open>f\<close> finds a line whose limit
  and flags are those of \<open>f\<close> and whose balance is 0. The \<^verbatim>\<open>INSERT\<close> of \<^verbatim>\<open>storeAdd\<close>
  names no \<^verbatim>\<open>balance\<close> column, so the row takes the default of the schema; the line read
  back equals \<open>f\<close> in limit, balance and flags exactly when the balance of \<open>f\<close> is 0.
\<close>

theorem storeAdd_then_loadTrustLine:
  assumes "isValid f" and "\<not> mIsIssuer f"
    and "currency (mTrustLine f) = CURRENCY_TYPE_ALPHANUM an"
    and "accountID (mTrustLine f) \<noteq> issuer an"
    and "inj (toBase58Check c)"
    and "storeAdd c f delta db = Inr (delta', db')"
  shows "\<exists>r. loadTrustLine c (accountID (mTrustLine f)) (currency (mTrustLine f)) retLine db'
               = Inr (True, r)
             \<and> limit (mTrustLine r) = limit (mTrustLine f)
             \<and> flags (mTrustLine r) = flags (mTrustLine f)
             \<and> balance (mTrustLine r) = 0"
proof -
  let ?v1 = "toBase58Check c (accountID (mTrustLine f))"
  let ?v2 = "toBase58Check c (issuer an)"
  let ?v3 = "currencyCodeToStr c (currencyCode an)"
  let ?row = "\<lparr>col_accountID = ?v1, col_issuer = ?v2, col_AlphaNumCurrency = ?v3,
               col_tlimit = limit (mTrustLine f), col_balance = 0,
               col_flags = sint (flags (mTrustLine f))\<rparr>"
  have key: "getKeyFields c (getKey f) = Inr (?v1, ?v2, ?v3)"
    using assms(3-5) by (simp add: getKeyFields_holder getKey_def)
  from assms(1,2,6) key
  obtain n where "sqlInsert db ?v1 ?v2 ?v3 (limit (mTrustLine f)) (sint (flags (mTrustLine f)))
                    = Inr (db', n)"
    by (auto simp: storeAdd_def split: sum.splits if_splits)
  then have sel: "sqlSelectKey db' ?v1 ?v2 ?v3 = [?row]"
    by (simp add: sqlInsert_Inr)
  have "0 \<le> sint (limit (mTrustLine f))"
    using assms(1) by (simp add: isValid_bounds)
  then have valid: "isValid (curTrustLine c ?row)"
    by (simp add: isValid_bounds curTrustLine_def)
  have "loadTrustLine c (accountID (mTrustLine f)) (currency (mTrustLine f)) retLine db'
          = Inr (True, curTrustLine c ?row)"
    using assms(3,4) sel valid by (simp add: loadTrustLine_def alphaNum_def)
  then show ?thesis
    by (simp add: curTrustLine_def)
qed

theorem storeAdd_then_loadTrustLine_witness:
  "isValid lineUSD \<and> \<not> mIsIssuer lineUSD
   \<and> storeAdd tallyCodec lineUSD [] [] = Inr ([AddEntry lineUSD], [rowUSD])
   \<and> (\<exists>r. loadTrustLine tallyCodec 1 (CURRENCY_TYPE_ALPHANUM \<lparr>currencyCode = 3, issuer = 2\<rparr>)
              issuerUSD [rowUSD] = Inr (True, r)
            \<and> limit (mTrustLine r) = 1000 \<and> flags (mTrustLine r) = 1
            \<and> balance (mTrustLine r) = 0)"
proof -
  have v: "isValid lineUSD" and n: "\<not> mIsIssuer lineUSD"
    and cur: "currency (mTrustLine lineUSD) = CURRENCY_TYPE_ALPHANUM \<lparr>currencyCode = 3, issuer = 2\<rparr>"
    and h: "accountID (mTrustLine lineUSD) \<noteq> issuer \<lparr>currencyCode = 3, issuer = 2\<rparr>"
    by (simp_all add: lineUSD_def isValid_bounds)
  show ?thesis
    using storeAdd_then_loadTrustLine [OF v n cur h tally_inj storeAdd_lineUSD, of issuerUSD]
      v n storeAdd_lineUSD
    by (simp add: lineUSD_def)
qed

text \<open>
  With a balance of 500 the line read back after the insertion has a balance of 0: the
  round trip does not return the balance.
\<close>

theorem storeAdd_then_loadTrustLine_counterexample:
  "isValid lineUSD \<and> \<not> mIsIssuer lineUSD
   \<and> accountID (mTrustLine lineUSD) = 1
   \<and> currency (mTrustLine lineUSD) = CURRENCY_TYPE_ALPHANUM \<lparr>currencyCode = 3, issuer = 2\<rparr>
   \<and> storeAdd tallyCodec lineUSD [] [] = Inr ([AddEntry lineUSD], [rowUSD])
   \<and> loadTrustLine tallyCodec 1 (CURRENCY_TYPE_ALPHANUM \<lparr>currencyCode = 3, issuer = 2\<rparr>)
        issuerUSD [rowUSD]
      = Inr (True, lineUSD\<lparr>mTrustLine := (mTrustLine lineUSD)\<lparr>balance := 0\<rparr>\<rparr>)
   \<and> balance (mTrustLine (lineUSD\<lparr>mTrustLine := (mTrustLine lineUSD)\<lparr>balance := 0\<rparr>\<rparr>))
        \<noteq> balance (mTrustLine lineUSD)"
  using storeAdd_lineUSD loadTrustLine_rowUSD [of issuerUSD]
  by (simp add: lineUSD_def isValid_bounds)

text \<open>
  The code of \<^verbatim>\<open>storeDelete\<close> on a key that has no row: the \<^verbatim>\<open>DELETE\<close> is sent and the
  number of rows it affected is never read, so the call returns with the table as it was
  and with a deletion recorded in the journal.
\<close>

lemma storeDelete_ignores_missing_row:
  assumes "key_currency key = CURRENCY_TYPE_ALPHANUM an"
    and "key_accountID key \<noteq> issuer an"
    and "inj (toBase58Check c)"
    and "sqlSelectKey db (toBase58Check c (key_accountID key)) (toBase58Check c (issuer an))
           (currencyCodeToStr c (currencyCode an)) = []"
  shows "storeDelete c key delta db = Inr (deleteEntry key delta, db)"
  using assms by (simp add: storeDelete_def getKeyFields_holder sqlDelete_absent)

text \<open>
  C2. Deleting a key (holder different from issuer) that has no row is to raise the
  consistency error of a mutation that affects no row. The code does not do so. On the
  empty table, with the key of the example line, \<^verbatim>\<open>storeDelete\<close> returns normally and
  records in the journal a deletion that did not happen, where \<^verbatim>\<open>storeChange\<close>, for the
  same missing row, raises the error of its test \<^verbatim>\<open>get_affected_rows() != 1\<close>.
  \<^verbatim>\<open>storeDelete\<close> is the one mutation of the three without that test.
\<close>

theorem storeDelete_missing_row_returns:
  "sqlSelectKey [] ''g'' ''gg'' ''UUU'' = []
   \<and> getKeyFields tallyCodec (getKey lineUSD) = Inr (''g'', ''gg'', ''UUU'')
   \<and> storeDelete tallyCodec (getKey lineUSD) [] [] = Inr ([DeleteEntry (getKey lineUSD)], [])
   \<and> storeDelete tallyCodec (getKey lineUSD) [] [] \<noteq> Inl CouldNotUpdateSQL
   \<and> storeChange tallyCodec lineUSD [] [] = Inl CouldNotUpdateSQL"
  by (simp add: storeDelete_def storeChange_def getKeyFields_def getKey_def lineUSD_def
      alphaNum_def isValid_bounds sqlSelectKey_def sqlDelete_def sqlUpdate_def deleteEntry_def
      Let_def tallyCodec_def replicate_2 replicate_3)

text \<open>
  C5. For every frame marked as the issuer's own line that passes \<^verbatim>\<open>isValid\<close>,
  \<^verbatim>\<open>storeAdd\<close> and \<^verbatim>\<open>storeChange\<close> return normally, with the table and the journal as
  they were.
\<close>

theorem issuer_frame_not_written:
  assumes "mIsIssuer f" and "isValid f"
  shows "storeAdd c f delta db = Inr (delta, db) \<and> storeChange c f delta db = Inr (delta, db)"
  using assms by (simp add: storeAdd_def storeChange_def)

theorem issuer_frame_not_written_witness:
  "mIsIssuer issuerUSD \<and> isValid issuerUSD
   \<and> storeAdd tallyCodec issuerUSD [] [rowUSD] = Inr ([], [rowUSD])
   \<and> storeChange tallyCodec issuerUSD [] [rowUSD] = Inr ([], [rowUSD])"
proof -
  have m: "mIsIssuer issuerUSD" and v: "isValid issuerUSD"
    by (simp_all add: issuerUSD_def isValid_bounds sint_INT64_MAX)
  show ?thesis
    using issuer_frame_not_written [OF m v, of tallyCodec "[]" "[rowUSD]"] m v by simp
qed

text \<open>
  C6. For every currency and the account that issues it, \<^verbatim>\<open>loadTrustLine\<close> returns true
  with the issuer's own line, whatever the database holds (the result is the same for
  every database: nothing is looked up): the line is marked as the issuer's, is
  authorized, and its balance and limit are \<^verbatim>\<open>INT64_MAX\<close>, which is \<open>2 ^ 63 - 1\<close>, the
  greatest signed 64-bit value.
\<close>

theorem loadTrustLine_issuer:
  "\<exists>r. (\<forall>db. loadTrustLine c (issuer an) (CURRENCY_TYPE_ALPHANUM an) retLine db = Inr (True, r))
        \<and> mIsIssuer r \<and> isAuthorized r
        \<and> balance (mTrustLine r) = INT64_MAX \<and> limit (mTrustLine r) = INT64_MAX
        \<and> accountID (mTrustLine r) = issuer an
        \<and> currency (mTrustLine r) = CURRENCY_TYPE_ALPHANUM an
        \<and> sint INT64_MAX = 2 ^ 63 - 1 \<and> (\<forall>w. w \<le>s INT64_MAX)"
  by (simp add: loadTrustLine_def alphaNum_def setAsIssuer_def isAuthorized_def
      flag_set_reads AUTHORIZED_FLAG_nonzero sint_INT64_MAX word_sle_INT64_MAX)

theorem loadTrustLine_issuer_witness:
  "\<exists>r. (\<forall>db. loadTrustLine tallyCodec 2 (CURRENCY_TYPE_ALPHANUM \<lparr>currencyCode = 3, issuer = 2\<rparr>)
                (setAuthorized False lineUSD) db = Inr (True, r))
        \<and> mIsIssuer r \<and> isAuthorized r
        \<and> balance (mTrustLine r) = INT64_MAX \<and> limit (mTrustLine r) = INT64_MAX"
  using loadTrustLine_issuer [of tallyCodec "\<lparr>currencyCode = 3, issuer = 2\<rparr>"
      "setAuthorized False lineUSD"]
  by auto

text \<open>
  C7. For every key whose holder is the issuer of its currency, \<^verbatim>\<open>exists\<close> and
  \<^verbatim>\<open>storeDelete\<close> raise the error of \<^verbatim>\<open>getKeyFields\<close> (the issuer's own trust line is
  not to be used); neither returns a result.
\<close>

theorem issuer_key_rejected:
  assumes "key_currency key = CURRENCY_TYPE_ALPHANUM an" and "key_accountID key = issuer an"
  shows "exists c db key = Inl IssuerOwnTrustline
         \<and> storeDelete c key delta db = Inl IssuerOwnTrustline"
  using assms by (simp add: exists_def storeDelete_def getKeyFields_issuer)

theorem issuer_key_rejected_witness:
  "exists tallyCodec [rowUSD] (getKey issuerUSD) = Inl IssuerOwnTrustline
   \<and> storeDelete tallyCodec (getKey issuerUSD) [] [rowUSD] = Inl IssuerOwnTrustline"
  using issuer_key_rejected [of "getKey issuerUSD" "\<lparr>currencyCode = 3, issuer = 2\<rparr>"
      tallyCodec "[rowUSD]" "[]"]
  by (simp add: getKey_def issuerUSD_def)

text \<open>
  C9. Every frame that \<^verbatim>\<open>loadLines\<close> hands to its processor is valid. A run that
  returns has found every selected row valid and has fed the rows, decoded, to the
  processor in their order; a selection with an invalid row ends in the failed assertion;
  what the processor would do with an invalid frame never matters. Hence a line that
  \<^verbatim>\<open>loadTrustLine\<close> reports as found is valid, and so are all the lines the second
  \<^verbatim>\<open>loadLines\<close> returns for a holder.
\<close>

theorem loadLines_hands_valid:
  "(loadLines c rows p s = Inr s' \<longrightarrow>
      (\<forall>r\<in>set rows. isValid (curTrustLine c r))
      \<and> s' = foldl (\<lambda>s r. p (curTrustLine c r) s) s rows)
   \<and> ((\<exists>r\<in>set rows. \<not> isValid (curTrustLine c r)) \<longrightarrow>
        loadLines c rows p s = Inl AssertionFailed)
   \<and> ((\<forall>f s. isValid f \<longrightarrow> p f s = q f s) \<longrightarrow>
        loadLines c rows p s = loadLines c rows q s)
   \<and> (loadTrustLine c a cur retLine db = Inr (True, r) \<longrightarrow> isValid r)
   \<and> (loadLinesAccount c a [] db = Inr fs \<longrightarrow> (\<forall>f\<in>set fs. isValid f))"
  using loadLines_Inr [of c rows p s s'] loadLines_invalid [of rows c p s]
    loadLines_cong_valid [of p q c rows s] loadTrustLine_valid [of c a cur retLine db r]
    loadLinesAccount_valid [of c a "[]" db fs]
  by simp

theorem loadLines_hands_valid_witness:
  "loadLines tallyCodec [rowUSD] (\<lambda>f fs. fs @ [f]) [] = Inr [curTrustLine tallyCodec rowUSD]
   \<and> isValid (curTrustLine tallyCodec rowUSD)
   \<and> \<not> isValid (curTrustLine tallyCodec (rowUSD\<lparr>col_balance := 2000\<rparr>))
   \<and> loadLines tallyCodec [rowUSD, rowUSD\<lparr>col_balance := 2000\<rparr>] (\<lambda>f fs. fs @ [f]) []
       = Inl AssertionFailed
   \<and> isValid (lineUSD\<lparr>mTrustLine := (mTrustLine lineUSD)\<lparr>balance := 0\<rparr>\<rparr>)"
  using loadLines_hands_valid [of tallyCodec "[rowUSD]" "\<lambda>f fs. fs @ [f]" "[]"
      "[curTrustLine tallyCodec rowUSD]" "\<lambda>f fs. fs @ [f]" 1
      "CURRENCY_TYPE_ALPHANUM \<lparr>currencyCode = 3, issuer = 2\<rparr>" issuerUSD "[rowUSD]"
      "lineUSD\<lparr>mTrustLine := (mTrustLine lineUSD)\<lparr>balance := 0\<rparr>\<rparr>"
      "[lineUSD\<lparr>mTrustLine := (mTrustLine lineUSD)\<lparr>balance := 0\<rparr>\<rparr>]"]
    loadLines_hands_valid [of tallyCodec "[rowUSD, rowUSD\<lparr>col_balance := 2000\<rparr>]"
      "\<lambda>f fs. fs @ [f]" "[]"]
    isValid_rowUSD notValid_overdrawn loadTrustLine_rowUSD [of issuerUSD] loadLinesAccount_rowUSD
  by simp

end
